theory Spec2Isabelle
  imports Main
begin

section \<open>The billing command of now-cli: data model\<close>

text \<open>
  The theory embeds \<^verbatim>\<open>src/providers/sh/commands/billing.js\<close>: the function
  \<^verbatim>\<open>buildInquirerChoices\<close> and the subcommand handler \<^verbatim>\<open>run\<close>.

  A card as the billing API returns it. The two optional address fields are
  \<open>string option\<close>, \<open>None\<close> standing for a missing (\<^verbatim>\<open>undefined\<close>) field.
  The field \<^verbatim>\<open>id\<close> is called \<open>card_id\<close> here, since \<open>id\<close> is the identity function of HOL.
\<close>

record card =
  card_id :: string
  brand :: string
  last4 :: string
  name :: string
  address_line1 :: string
  address_line2 :: "string option"
  address_city :: string
  address_state :: "string option"
  address_zip :: string
  address_country :: string

text \<open>The object that \<^verbatim>\<open>creditCards.ls()\<close> resolves to; \<open>None\<close> is a null \<^verbatim>\<open>defaultCardId\<close>.\<close>

record cardCollection =
  cards :: "card list"
  defaultCardId :: "string option"

text \<open>The session context \<^verbatim>\<open>sh\<close> that \<^verbatim>\<open>run\<close> destructures.\<close>

record team =
  slug :: "string option"

record user =
  username :: "string option"
  email :: "string option"

record sh =
  currentTeam :: "team option"
  user :: user

text \<open>One entry of the list that \<^verbatim>\<open>buildInquirerChoices\<close> returns
  (\<^verbatim>\<open>{name, value, short}\<close>).\<close>

record choice =
  choice_name :: string
  choice_value :: string
  choice_short :: string

text \<open>
  What a rejected promise or a failing statement throws: an error of the API client, with its
  message and its \<^verbatim>\<open>userError\<close> flag, or one of the two errors of the JavaScript
  runtime that the handler can raise itself: a reference to an undeclared identifier, and a
  property read on \<^verbatim>\<open>undefined\<close> (the property is recorded).
\<close>

datatype exn =
  ApiError string bool
  | ReferenceError string
  | TypeError string

fun message :: "exn \<Rightarrow> string" where
  "message (ApiError m u) = m"
| "message (ReferenceError x) = x @ '' is not defined''"
| "message (TypeError p) = ''Cannot read property '' @ [CHR 0x27] @ p @ [CHR 0x27] @ '' of undefined''"

text \<open>The name of the error class, as the first line of a stack trace shows it.\<close>

fun exn_name :: "exn \<Rightarrow> string" where
  "exn_name (ApiError m u) = ''Error''"
| "exn_name (ReferenceError x) = ''ReferenceError''"
| "exn_name (TypeError p) = ''TypeError''"

fun userError :: "exn \<Rightarrow> bool" where
  "userError (ApiError m u) = u"
| "userError (ReferenceError x) = False"
| "userError (TypeError p) = False"

section \<open>External collaborators\<close>

text \<open>
  The styling functions of \<^verbatim>\<open>chalk\<close>, \<^verbatim>\<open>pluralize\<close> and the output helpers
  \<^verbatim>\<open>indent\<close>, \<^verbatim>\<open>error\<close>, \<^verbatim>\<open>success\<close> and \<^verbatim>\<open>info\<close> are not part of the
  file; they are string functions taken as parameters.
\<close>

record fmt =
  bold :: "string \<Rightarrow> string"
  cyan :: "string \<Rightarrow> string"
  gray :: "string \<Rightarrow> string"
  yellow :: "string \<Rightarrow> string"
  underline :: "string \<Rightarrow> string"
  indent :: "string \<Rightarrow> nat \<Rightarrow> string"
  plural :: "string \<Rightarrow> nat \<Rightarrow> bool \<Rightarrow> string"
  error :: "string \<Rightarrow> string"
  success :: "string \<Rightarrow> string"
  info :: "string \<Rightarrow> string"

text \<open>
  The answers of the outside world during one run: what the two possible calls of
  \<^verbatim>\<open>creditCards.ls()\<close> resolve to or reject with, whether \<^verbatim>\<open>setDefault\<close>,
  \<^verbatim>\<open>rm\<close> and the add flow fail, what the user answers at the two prompts, the
  two elapsed times that \<^verbatim>\<open>ms(new Date() - start)\<close> renders, and the stack trace
  that the runtime attaches to an error.
\<close>

record env =
  ls_first :: "exn + cardCollection"
  ls_second :: "exn + cardCollection"
  setDefault_result :: "exn option"
  rm_result :: "exn option"
  addBilling_result :: "exn option"
  listInput_answer :: "nat option"
  promptBool_answer :: bool
  elapsed_first :: string
  elapsed_second :: string
  stack :: "exn \<Rightarrow> string"

text \<open>
  Everything the handler does to the outside world, in order: console output, the help text,
  a call of \<^verbatim>\<open>exit(code)\<close>, the calls on the API client, the add flow and the two prompts
  with their arguments.
\<close>

datatype event =
  Log string
  | Err string
  | Help
  | Exit nat
  | ApiLs
  | ApiSetDefault string
  | ApiRm string
  | ApiClose
  | AddBilling
  | ListInput string "choice list" bool string
  | PromptBool string "string option"

text \<open>How a case of the \<^verbatim>\<open>switch\<close> ends: \<^verbatim>\<open>break\<close> (or falling out of it),
  \<^verbatim>\<open>return\<close>, or an exception.\<close>

datatype flow = Break | Return | Throw exn

text \<open>How \<^verbatim>\<open>run\<close> ends: its promise resolves, or rejects with an exception.\<close>

datatype outcome = Done | Threw exn

section \<open>JavaScript helpers\<close>

definition nl :: string where
  "nl = [CHR 0x0A]"

text \<open>\<^verbatim>\<open>Array.prototype.join\<close>.\<close>

fun join :: "string \<Rightarrow> string list \<Rightarrow> string" where
  "join sep [] = []"
| "join sep [x] = x"
| "join sep (x # y # ys) = x @ sep @ join sep (y # ys)"

text \<open>Truthiness of a value that is a string or \<^verbatim>\<open>undefined\<close>: the empty string is falsy.\<close>

definition truthy :: "string option \<Rightarrow> bool" where
  "truthy v = (case v of None \<Rightarrow> False | Some s \<Rightarrow> s \<noteq> [])"

text \<open>\<^verbatim>\<open>a || b\<close>.\<close>

definition js_or :: "string option \<Rightarrow> string option \<Rightarrow> string option" where
  "js_or a b = (if truthy a then a else b)"

text \<open>Conversion to a string, as a template literal or \<^verbatim>\<open>chalk\<close> does it.\<close>

definition str :: "string option \<Rightarrow> string" where
  "str v = (case v of None \<Rightarrow> ''undefined'' | Some s \<Rightarrow> s)"

text \<open>The expression
  \<^verbatim>\<open>(currentTeam && currentTeam.slug) || user.username || user.email\<close>.\<close>

definition owner :: "sh \<Rightarrow> string option" where
  "owner s =
     js_or (case currentTeam s of None \<Rightarrow> None | Some t \<Rightarrow> slug t)
       (js_or (username (user s)) (email (user s)))"

text \<open>Modelled from the spec: the interactive single-choice prompt \<^verbatim>\<open>listInput\<close>
  (\<^verbatim>\<open>util/input/list\<close>, not part of the file). Given the list of choices it returns the value
  of the selected choice, or the abort signal, which is \<^verbatim>\<open>undefined\<close>. The user's answer is
  the position of the selected choice, or \<open>None\<close> for an abort; a position outside the list
  selects nothing.\<close>

definition listInput :: "choice list \<Rightarrow> nat option \<Rightarrow> string option" where
  "listInput choices answer =
     (case answer of
        None \<Rightarrow> None
      | Some i \<Rightarrow> if i < length choices then Some (choice_value (choices ! i)) else None)"

section \<open>Rendering\<close>

text \<open>The marker \<^verbatim>\<open>_default\<close>, computed the same way by \<^verbatim>\<open>buildInquirerChoices\<close>
  and by the list handler.\<close>

definition default_marker :: "fmt \<Rightarrow> cardCollection \<Rightarrow> card \<Rightarrow> string" where
  "default_marker f cs c =
     (if Some (card_id c) = defaultCardId cs then '' '' @ bold f ''(default)'' else [])"

text \<open>The masked number \<^verbatim>\<open>`${chalk.gray('#### ').repeat(3)}${card.last4}`\<close>.\<close>

definition masked_number :: "fmt \<Rightarrow> card \<Rightarrow> string" where
  "masked_number f c = concat (replicate 3 (gray f ''#### '')) @ last4 c"

definition buildInquirerChoices :: "fmt \<Rightarrow> cardCollection \<Rightarrow> choice list" where
  "buildInquirerChoices f cs =
     map (\<lambda>c.
       let ident = cyan f (''ID: '' @ card_id c) @ default_marker f cs c;
           number = masked_number f c;
           label = join nl [ident, indent f (name c) 2, indent f (brand c @ '' '' @ number) 2]
       in \<lparr>choice_name = label, choice_value = card_id c, choice_short = card_id c\<rparr>)
       (cards cs)"

text \<open>The address that the list handler builds for one card (lines 149 to 165).\<close>

definition ls_address :: "card \<Rightarrow> string" where
  "ls_address c =
     address_line1 c
     @ (if truthy (address_line2 c) then '', '' @ str (address_line2 c) @ ''.'' else ''.'')
     @ nl @ address_city c @ '', ''
     @ (if truthy (address_state c) then str (address_state c) @ '', '' else [])
     @ address_zip c @ ''. '' @ address_country c"

text \<open>The text of one card in the list (the function mapped over \<^verbatim>\<open>cards.cards\<close>).\<close>

definition ls_card :: "fmt \<Rightarrow> cardCollection \<Rightarrow> card \<Rightarrow> string" where
  "ls_card f cs c =
     (let ident = gray f ''-'' @ '' '' @ cyan f (''ID: '' @ card_id c) @ default_marker f cs c;
          number = masked_number f c
      in join nl [ident, indent f (name c) 2, indent f (brand c @ '' '' @ number) 2,
                  indent f (ls_address c) 2])"

section \<open>The subcommand handler\<close>

text \<open>
  The function \<^verbatim>\<open>run\<close> is one \<^verbatim>\<open>switch\<close> over the subcommand. Each case is a
  definition of its own here; it returns the events of the case in order and how the case
  ends. The call \<^verbatim>\<open>exit(code)\<close> is the event \<open>Exit code\<close>: where the source writes
  \<^verbatim>\<open>return exit(code)\<close> the case ends with \<open>Return\<close>, and where it calls
  \<^verbatim>\<open>exit(1)\<close> as a statement the execution goes on with the next statement.
\<close>

text \<open>Cases \<^verbatim>\<open>'ls'\<close> and \<^verbatim>\<open>'list'\<close> (lines 132 to 189).\<close>

definition run_list :: "fmt \<Rightarrow> env \<Rightarrow> sh \<Rightarrow> event list \<times> flow" where
  "run_list f e s =
     (case ls_first e of
        Inl err \<Rightarrow> ([ApiLs, Err (error f (message err))], Return)
      | Inr cs \<Rightarrow>
          let text = join (nl @ nl) (map (ls_card f cs) (cards cs));
              header = ''> '' @ plural f ''card'' (length (cards cs)) True @ '' found under ''
                @ bold f (str (owner s)) @ '' '' @ gray f (''['' @ elapsed_first e @ '']'')
          in ([ApiLs, Log header] @ (if text \<noteq> [] then [Log (nl @ text @ nl)] else []), Break))"

text \<open>Case \<^verbatim>\<open>'set-default'\<close> (lines 191 to 255). The statement of line 237 names the
  undeclared identifier \<^verbatim>\<open>consoel\<close>, so it throws a ReferenceError before anything is
  printed.\<close>

definition run_set_default :: "fmt \<Rightarrow> env \<Rightarrow> sh \<Rightarrow> string list \<Rightarrow> event list \<times> flow" where
  "run_set_default f e s args =
     (if length args > 1 then ([Err (error f ''Invalid number of arguments''), Exit 1], Return)
      else case ls_first e of
        Inl err \<Rightarrow> ([ApiLs, Err (error f (message err))], Return)
      | Inr cs \<Rightarrow>
          if length (cards cs) = 0
          then ([ApiLs, Err (error f ''You have no credit cards to choose from''), Exit 0], Return)
          else
            let arg0 = (case args of [] \<Rightarrow> None | a # rest \<Rightarrow> Some a);
                msg = ''Selecting a new default payment card for '' @ bold f (str (owner s))
                  @ '' '' @ gray f (''['' @ elapsed_first e @ '']'');
                choices = buildInquirerChoices f cs;
                asked = (if arg0 = None then [ListInput msg choices True ''end''] else []);
                cardId = (if arg0 = None then listInput choices (listInput_answer e) else arg0)
            in if truthy cardId then
                 let label = ''Are you sure that you to set this card as the default?'';
                     confirmed = [ApiLs] @ asked @ [PromptBool label (Some nl)]
                 in if \<not> promptBool_answer e then (confirmed, Throw (ReferenceError ''consoel''))
                    else case setDefault_result e of
                      Some err \<Rightarrow> (confirmed @ [ApiSetDefault (str cardId)], Throw err)
                    | None \<Rightarrow>
                        (case find (\<lambda>c. Some (card_id c) = cardId) (cards cs) of
                           None \<Rightarrow> (confirmed @ [ApiSetDefault (str cardId)], Throw (TypeError ''brand''))
                         | Some c \<Rightarrow>
                             (confirmed @ [ApiSetDefault (str cardId),
                                Log (success f (brand c @ '' ending in '' @ last4 c
                                  @ '' is now the default '' @ gray f (''['' @ elapsed_second e @ '']'')))],
                              Break))
               else ([ApiLs] @ asked @ [Log ''No changes made''], Break))"

text \<open>Cases \<^verbatim>\<open>'rm'\<close> and \<^verbatim>\<open>'remove'\<close> (lines 257 to 344).\<close>

definition run_rm :: "fmt \<Rightarrow> env \<Rightarrow> sh \<Rightarrow> string list \<Rightarrow> event list \<times> flow" where
  "run_rm f e s args =
     (if length args > 1 then ([Err (error f ''Invalid number of arguments''), Exit 1], Return)
      else case ls_first e of
        Inl err \<Rightarrow> ([ApiLs, Err (error f (message err))], Return)
      | Inr cs \<Rightarrow>
          if length (cards cs) = 0
          then ([ApiLs,
                 Err (error f (''You have no credit cards to choose from to delete under ''
                   @ bold f (str (owner s)))),
                 Exit 0], Return)
          else
            let arg0 = (case args of [] \<Rightarrow> None | a # rest \<Rightarrow> Some a);
                msg = ''Selecting a card to '' @ underline f ''remove'' @ '' under ''
                  @ bold f (str (owner s)) @ '' '' @ gray f (''['' @ elapsed_first e @ '']'');
                choices = buildInquirerChoices f cs;
                asked = (if arg0 = None then [ListInput msg choices True ''start''] else []);
                cardId = (if arg0 = None then listInput choices (listInput_answer e) else arg0)
            in if truthy cardId then
                 let label = ''Are you sure that you want to remove this card?'';
                     confirmed = [ApiLs] @ asked @ [PromptBool label None]
                 in if \<not> promptBool_answer e then (confirmed @ [Log ''Aborted''], Break)
                    else case rm_result e of
                      Some err \<Rightarrow> (confirmed @ [ApiRm (str cardId)], Throw err)
                    | None \<Rightarrow>
                        (case find (\<lambda>c. Some (card_id c) = cardId) (cards cs) of
                           None \<Rightarrow> (confirmed @ [ApiRm (str cardId)], Throw (TypeError ''brand''))
                         | Some deletedCard \<Rightarrow>
                             let remainingCards = filter (\<lambda>c. Some (card_id c) \<noteq> cardId) (cards cs);
                                 text = brand deletedCard @ '' ending in '' @ last4 deletedCard
                                   @ '' was deleted'';
                                 timing = '' '' @ gray f (''['' @ elapsed_second e @ '']'')
                             in if cardId = defaultCardId cs then
                                  if length remainingCards = 0
                                  then (confirmed @ [ApiRm (str cardId),
                                          Log (success f (text @ nl @ yellow f ''Warning!''
                                            @ '' You have no default card'' @ timing))], Break)
                                  else case ls_second e of
                                    Inl err \<Rightarrow> (confirmed @ [ApiRm (str cardId), ApiLs], Throw err)
                                  | Inr cs2 \<Rightarrow>
                                      (case find (\<lambda>c. Some (card_id c) = defaultCardId cs2) (cards cs2) of
                                         None \<Rightarrow>
                                           (confirmed @ [ApiRm (str cardId), ApiLs],
                                            Throw (TypeError ''brand''))
                                       | Some newDefaultCard \<Rightarrow>
                                           (confirmed @ [ApiRm (str cardId), ApiLs,
                                              Log (success f (text @ nl @ brand newDefaultCard
                                                @ '' ending in '' @ last4 newDefaultCard
                                                @ '' in now default for '' @ bold f (str (owner s))
                                                @ timing))], Break))
                                else (confirmed @ [ApiRm (str cardId), Log (success f (text @ timing))],
                                      Break))
               else ([ApiLs] @ asked @ [Log ''No changes made''], Break))"

text \<open>Case \<^verbatim>\<open>'add'\<close>: the add flow is an external collaborator.\<close>

definition run_add :: "env \<Rightarrow> event list \<times> flow" where
  "run_add e =
     (case addBilling_result e of
        None \<Rightarrow> ([AddBilling], Break)
      | Some err \<Rightarrow> ([AddBilling], Throw err))"

text \<open>The \<^verbatim>\<open>default\<close> case (lines 356 to 359): \<^verbatim>\<open>exit(1)\<close> is called as a statement,
  and the execution leaves the \<^verbatim>\<open>switch\<close>.\<close>

definition run_default :: "fmt \<Rightarrow> event list \<times> flow" where
  "run_default f =
     ([Err (error f ''Please specify a valid subcommand: ls | add | rm | set-default''), Help, Exit 1],
      Break)"

text \<open>
  The whole of \<^verbatim>\<open>run\<close>. Its argument \<open>argv\<close> is the list \<^verbatim>\<open>argv._\<close> as
  \<^verbatim>\<open>main\<close> leaves it: the subcommand is its first element (\<^verbatim>\<open>undefined\<close> when the list
  is empty) and \<^verbatim>\<open>args\<close> is the rest. After the \<^verbatim>\<open>switch\<close> comes the one call of
  \<^verbatim>\<open>creditCards.close()\<close> (line 362), which a \<^verbatim>\<open>return\<close> or an exception inside the
  \<^verbatim>\<open>switch\<close> never reaches.
\<close>

definition run :: "fmt \<Rightarrow> env \<Rightarrow> sh \<Rightarrow> string list \<Rightarrow> event list \<times> outcome" where
  "run f e s argv =
     (let subcommand = (case argv of [] \<Rightarrow> None | c # rest \<Rightarrow> Some c);
          args = drop 1 argv;
          handled =
            (if subcommand = Some ''ls'' \<or> subcommand = Some ''list'' then run_list f e s
             else if subcommand = Some ''set-default'' then run_set_default f e s args
             else if subcommand = Some ''rm'' \<or> subcommand = Some ''remove'' then run_rm f e s args
             else if subcommand = Some ''add'' then run_add e
             else run_default f)
      in case snd handled of
           Break \<Rightarrow> (fst handled @ [ApiClose], Done)
         | Return \<Rightarrow> (fst handled, Done)
         | Throw err \<Rightarrow> (fst handled, Threw err))"

text \<open>
  The guarded call of \<^verbatim>\<open>run\<close> in \<^verbatim>\<open>main\<close> (lines 83 to 93): an exception is printed,
  by its message when it is a user error and as an unknown error with its stack trace
  otherwise, and \<^verbatim>\<open>exit(1)\<close> is called.
\<close>

definition main_try :: "fmt \<Rightarrow> env \<Rightarrow> sh \<Rightarrow> string list \<Rightarrow> event list" where
  "main_try f e s argv =
     (case snd (run f e s argv) of
        Done \<Rightarrow> fst (run f e s argv)
      | Threw err \<Rightarrow>
          fst (run f e s argv)
          @ [if userError err then Err (error f (message err))
             else Err (error f (''Unknown error: '' @ stack e err)),
             Exit 1])"

section \<open>Reading a trace\<close>

text \<open>The calls that change the account.\<close>

fun is_mutation :: "event \<Rightarrow> bool" where
  "is_mutation (ApiSetDefault i) = True"
| "is_mutation (ApiRm i) = True"
| "is_mutation ev = False"

text \<open>The two interactive prompts.\<close>

fun is_prompt :: "event \<Rightarrow> bool" where
  "is_prompt (ListInput m c sep a) = True"
| "is_prompt (PromptBool l t) = True"
| "is_prompt ev = False"

text \<open>The events that follow the first call of \<^verbatim>\<open>rm\<close>.\<close>

fun after_rm :: "event list \<Rightarrow> event list" where
  "after_rm [] = []"
| "after_rm (ApiRm i # evs) = evs"
| "after_rm (ev # evs) = after_rm evs"

text \<open>The calls of \<^verbatim>\<open>creditCards.ls()\<close> and of \<^verbatim>\<open>creditCards.close()\<close>.\<close>

fun is_fetch :: "event \<Rightarrow> bool" where
  "is_fetch ApiLs = True"
| "is_fetch ev = False"

fun is_close :: "event \<Rightarrow> bool" where
  "is_close ApiClose = True"
| "is_close ev = False"

text \<open>The events that the subcommand \<open>sub\<close> (\<^verbatim>\<open>'set-default'\<close>, or else one of
  \<^verbatim>\<open>'rm'\<close> and \<^verbatim>\<open>'remove'\<close>) produces at each step of the target resolution: the
  selection prompt, the confirmation prompt, the mutating call, and the report on an empty
  collection.\<close>

definition selection_of :: "fmt \<Rightarrow> env \<Rightarrow> sh \<Rightarrow> cardCollection \<Rightarrow> string \<Rightarrow> event" where
  "selection_of f e s cs sub =
     (if sub = ''set-default''
      then ListInput (''Selecting a new default payment card for '' @ bold f (str (owner s))
             @ '' '' @ gray f (''['' @ elapsed_first e @ '']''))
             (buildInquirerChoices f cs) True ''end''
      else ListInput (''Selecting a card to '' @ underline f ''remove'' @ '' under ''
             @ bold f (str (owner s)) @ '' '' @ gray f (''['' @ elapsed_first e @ '']''))
             (buildInquirerChoices f cs) True ''start'')"

definition confirmation_of :: "string \<Rightarrow> event" where
  "confirmation_of sub =
     (if sub = ''set-default''
      then PromptBool ''Are you sure that you to set this card as the default?'' (Some nl)
      else PromptBool ''Are you sure that you want to remove this card?'' None)"

definition mutation_of :: "string \<Rightarrow> string \<Rightarrow> event" where
  "mutation_of sub i = (if sub = ''set-default'' then ApiSetDefault i else ApiRm i)"

definition no_cards_report :: "fmt \<Rightarrow> sh \<Rightarrow> string \<Rightarrow> event" where
  "no_cards_report f s sub =
     (if sub = ''set-default''
      then Err (error f ''You have no credit cards to choose from'')
      else Err (error f (''You have no credit cards to choose from to delete under ''
             @ bold f (str (owner s)))))"

text \<open>The number of lines of a text.\<close>

definition line_count :: "string \<Rightarrow> nat" where
  "line_count t = Suc (length (filter (\<lambda>ch. ch = CHR 0x0A) t))"

text \<open>A text without a line break.\<close>

definition no_newline :: "string \<Rightarrow> bool" where
  "no_newline t = (filter (\<lambda>ch. ch = CHR 0x0A) t = [])"

section \<open>Sample inputs\<close>

text \<open>
  A formatter without colours: the styling functions return their text, \<^verbatim>\<open>indent\<close>
  puts \<open>n\<close> spaces before every line, \<^verbatim>\<open>plural\<close> adds an s unless the count is one,
  and the output helpers put their usual prefix.
\<close>

fun show_nat :: "nat \<Rightarrow> string" where
  "show_nat n =
     (if n < 10 then [char_of (48 + n)] else show_nat (n div 10) @ [char_of (48 + n mod 10)])"

definition plain :: fmt where
  "plain =
     \<lparr>bold = (\<lambda>t. t), cyan = (\<lambda>t. t), gray = (\<lambda>t. t), yellow = (\<lambda>t. t),
      underline = (\<lambda>t. t),
      indent = (\<lambda>t n. replicate n (CHR '' '')
        @ concat (map (\<lambda>ch. if ch = CHR 0x0A then ch # replicate n (CHR '' '') else [ch]) t)),
      plural = (\<lambda>w n inclusive.
        (if inclusive then show_nat n @ '' '' else []) @ w @ (if n = 1 then [] else ''s'')),
      error = (\<lambda>t. ''> Error! '' @ t),
      success = (\<lambda>t. ''> Success! '' @ t),
      info = (\<lambda>t. ''> '' @ t)\<rparr>"

definition visa :: card where
  "visa =
     \<lparr>card_id = ''card_1'', brand = ''Visa'', last4 = ''4242'', name = ''Ada Lovelace'',
      address_line1 = ''12 Main St'', address_line2 = None, address_city = ''London'',
      address_state = None, address_zip = ''N1'', address_country = ''GB''\<rparr>"

definition amex :: card where
  "amex =
     \<lparr>card_id = ''card_2'', brand = ''Amex'', last4 = ''0005'', name = ''Alan Turing'',
      address_line1 = ''1 Market St'', address_line2 = Some ''Suite 5'',
      address_city = ''San Francisco'', address_state = Some ''CA'', address_zip = ''94105'',
      address_country = ''US''\<rparr>"

text \<open>Two cards, the first one the default; one card that is the default; one card and no
  default.\<close>

definition two_cards :: cardCollection where
  "two_cards = \<lparr>cards = [visa, amex], defaultCardId = Some ''card_1''\<rparr>"

definition one_card :: cardCollection where
  "one_card = \<lparr>cards = [visa], defaultCardId = Some ''card_1''\<rparr>"

definition one_card_no_default :: cardCollection where
  "one_card_no_default = \<lparr>cards = [visa], defaultCardId = None\<rparr>"

definition no_cards :: cardCollection where
  "no_cards = \<lparr>cards = [], defaultCardId = None\<rparr>"

definition alice :: sh where
  "alice = \<lparr>currentTeam = None, user = \<lparr>username = Some ''alice'', email = Some ''alice@example.com''\<rparr>\<rparr>"

text \<open>The outside world when everything succeeds and the user says yes: the first fetch
  returns \<open>cs\<close>, a second fetch returns the second card as the only one, and a stack
  trace is its first line, without the frames.\<close>

definition world :: "cardCollection \<Rightarrow> env" where
  "world cs =
     \<lparr>ls_first = Inr cs,
      ls_second = Inr \<lparr>cards = [amex], defaultCardId = Some ''card_2''\<rparr>,
      setDefault_result = None, rm_result = None, addBilling_result = None,
      listInput_answer = Some 0, promptBool_answer = True,
      elapsed_first = ''5ms'', elapsed_second = ''7ms'',
      stack = (\<lambda>err. exn_name err @ '': '' @ message err)\<rparr>"

section \<open>Argument count, empty collection, aborted selection, unknown subcommand\<close>

text \<open>
  Claim C7. When \<^verbatim>\<open>set-default\<close>, \<^verbatim>\<open>rm\<close> or \<^verbatim>\<open>remove\<close> is invoked with two or
  more positional arguments, the run consists of the error message and \<^verbatim>\<open>exit(1)\<close>
  and nothing else: no call on the API client is made, not even the fetch of the list.
\<close>

theorem too_many_arguments_rejected:
  assumes "sub \<in> {''set-default'', ''rm'', ''remove''}" and "2 \<le> length args"
  shows "run f e s (sub # args) = ([Err (error f ''Invalid number of arguments''), Exit 1], Done)"
  using assms by (auto simp: run_def run_set_default_def run_rm_def)

theorem too_many_arguments_rejected_witness:
  "''rm'' \<in> {''set-default'', ''rm'', ''remove''} \<and> 2 \<le> length [''card_1'', ''card_2'']
   \<and> run plain (world two_cards) alice [''rm'', ''card_1'', ''card_2'']
       = ([Err ''> Error! Invalid number of arguments'', Exit 1], Done)"
  using too_many_arguments_rejected [of "''rm''" "[''card_1'', ''card_2'']" plain "world two_cards" alice]
  by (simp add: plain_def)

text \<open>
  Claim C10. A subcommand that is none of \<^verbatim>\<open>ls\<close>, \<^verbatim>\<open>list\<close>, \<^verbatim>\<open>set-default\<close>,
  \<^verbatim>\<open>rm\<close>, \<^verbatim>\<open>remove\<close> and \<^verbatim>\<open>add\<close> prints an error, shows the help text and calls
  \<^verbatim>\<open>exit(1)\<close>. No handler runs and no request goes to the API: the only use of the
  client is its release by \<^verbatim>\<open>close()\<close> at the end of the run.
\<close>

theorem unknown_subcommand_rejected:
  assumes "sub \<notin> {''ls'', ''list'', ''set-default'', ''rm'', ''remove'', ''add''}"
  shows "run f e s (sub # args) =
    ([Err (error f ''Please specify a valid subcommand: ls | add | rm | set-default''),
      Help, Exit 1, ApiClose], Done)"
  using assms by (simp add: run_def run_default_def)

theorem unknown_subcommand_rejected_witness:
  "''pay'' \<notin> {''ls'', ''list'', ''set-default'', ''rm'', ''remove'', ''add''}
   \<and> run plain (world two_cards) alice [''pay'', ''card_1''] =
    ([Err ''> Error! Please specify a valid subcommand: ls | add | rm | set-default'',
      Help, Exit 1, ApiClose], Done)"
  using unknown_subcommand_rejected [of "''pay''" plain "world two_cards" alice "[''card_1'']"]
  by (simp add: plain_def)

text \<open>
  Claim C5. When \<^verbatim>\<open>set-default\<close>, \<^verbatim>\<open>rm\<close> or \<^verbatim>\<open>remove\<close> fetches an empty
  collection, the run is the fetch, the report that there are no cards, and \<^verbatim>\<open>exit(0)\<close>:
  no prompt is shown and no mutating call is made.
\<close>

theorem empty_collection_exits_zero:
  assumes "sub \<in> {''set-default'', ''rm'', ''remove''}" and "length args \<le> 1"
    and "ls_first e = Inr cs" and "cards cs = []"
  shows "run f e s (sub # args) = ([ApiLs, no_cards_report f s sub, Exit 0], Done)
    \<and> filter is_prompt (fst (run f e s (sub # args))) = []
    \<and> filter is_mutation (fst (run f e s (sub # args))) = []"
  using assms by (auto simp: run_def run_set_default_def run_rm_def no_cards_report_def)

theorem empty_collection_exits_zero_witness:
  "''remove'' \<in> {''set-default'', ''rm'', ''remove''} \<and> length ([]::string list) \<le> 1
   \<and> ls_first (world no_cards) = Inr no_cards \<and> cards no_cards = []
   \<and> run plain (world no_cards) alice [''remove'']
       = ([ApiLs, Err ''> Error! You have no credit cards to choose from to delete under alice'',
           Exit 0], Done)"
  using empty_collection_exits_zero [of "''remove''" "[]" "world no_cards" no_cards plain alice]
  by (simp add: plain_def world_def no_cards_def no_cards_report_def alice_def owner_def
      js_or_def truthy_def str_def)

text \<open>
  Claim C6. When \<^verbatim>\<open>set-default\<close>, \<^verbatim>\<open>rm\<close> or \<^verbatim>\<open>remove\<close> is invoked without a
  positional argument over a non-empty collection and the user aborts the selection prompt,
  the run is the fetch, the selection prompt, the line \<^verbatim>\<open>No changes made\<close> and the
  release of the client: no confirmation prompt is shown and no mutating call is made.
\<close>

theorem aborted_selection_changes_nothing:
  assumes "sub \<in> {''set-default'', ''rm'', ''remove''}"
    and "ls_first e = Inr cs" and "cards cs \<noteq> []" and "listInput_answer e = None"
  shows "run f e s [sub] = ([ApiLs, selection_of f e s cs sub, Log ''No changes made'', ApiClose], Done)
    \<and> filter is_mutation (fst (run f e s [sub])) = []
    \<and> filter is_prompt (fst (run f e s [sub])) = [selection_of f e s cs sub]"
  using assms
  by (auto simp: run_def run_set_default_def run_rm_def selection_of_def listInput_def
      truthy_def Let_def)

theorem aborted_selection_changes_nothing_witness:
  "''set-default'' \<in> {''set-default'', ''rm'', ''remove''}
   \<and> ls_first ((world two_cards)\<lparr>listInput_answer := None\<rparr>) = Inr two_cards
   \<and> cards two_cards \<noteq> []
   \<and> listInput_answer ((world two_cards)\<lparr>listInput_answer := None\<rparr>) = None
   \<and> run plain ((world two_cards)\<lparr>listInput_answer := None\<rparr>) alice [''set-default'']
      = ([ApiLs,
          ListInput ''Selecting a new default payment card for alice [5ms]''
            (buildInquirerChoices plain two_cards) True ''end'',
          Log ''No changes made'', ApiClose], Done)"
  using aborted_selection_changes_nothing [of "''set-default''"
      "(world two_cards)\<lparr>listInput_answer := None\<rparr>" two_cards plain alice]
  by (simp add: plain_def world_def two_cards_def selection_of_def alice_def owner_def
      js_or_def truthy_def str_def)

section \<open>The choices of the selection prompt\<close>

text \<open>
  Claim C9. \<^verbatim>\<open>buildInquirerChoices\<close> returns one choice per card, in the order of the
  cards: the values and the short texts of the choices are the ids of the cards, and the
  label of a choice is the id of its card, followed by the marker \<^verbatim>\<open>(default)\<close> exactly
  when that id is the \<^verbatim>\<open>defaultCardId\<close> of the collection, then the name and the brand
  with the masked number. So whatever a completed selection over these choices returns is
  the id of a card of the collection.
\<close>

theorem buildInquirerChoices_one_choice_per_card:
  "length (buildInquirerChoices f cs) = length (cards cs)
   \<and> map choice_value (buildInquirerChoices f cs) = map card_id (cards cs)
   \<and> map choice_short (buildInquirerChoices f cs) = map card_id (cards cs)
   \<and> map choice_name (buildInquirerChoices f cs) =
       map (\<lambda>c. cyan f (''ID: '' @ card_id c)
              @ (if Some (card_id c) = defaultCardId cs then '' '' @ bold f ''(default)'' else [])
              @ nl @ indent f (name c) 2
              @ nl @ indent f (brand c @ '' '' @ gray f ''#### '' @ gray f ''#### ''
                     @ gray f ''#### '' @ last4 c) 2)
         (cards cs)
   \<and> (\<forall>answer v. listInput (buildInquirerChoices f cs) answer = Some v
          \<longrightarrow> v \<in> card_id ` set (cards cs))"
proof -
  have len: "length (buildInquirerChoices f cs) = length (cards cs)"
    by (simp add: buildInquirerChoices_def)
  have val: "map choice_value (buildInquirerChoices f cs) = map card_id (cards cs)"
    by (simp add: buildInquirerChoices_def Let_def)
  have short: "map choice_short (buildInquirerChoices f cs) = map card_id (cards cs)"
    by (simp add: buildInquirerChoices_def Let_def)
  have label: "map choice_name (buildInquirerChoices f cs) =
       map (\<lambda>c. cyan f (''ID: '' @ card_id c)
              @ (if Some (card_id c) = defaultCardId cs then '' '' @ bold f ''(default)'' else [])
              @ nl @ indent f (name c) 2
              @ nl @ indent f (brand c @ '' '' @ gray f ''#### '' @ gray f ''#### ''
                     @ gray f ''#### '' @ last4 c) 2)
         (cards cs)"
    by (simp add: buildInquirerChoices_def Let_def default_marker_def masked_number_def
        numeral_3_eq_3)
  have sel: "v \<in> card_id ` set (cards cs)"
    if "listInput (buildInquirerChoices f cs) answer = Some v" for answer v
  proof -
    from that obtain i where i: "i < length (buildInquirerChoices f cs)"
      and v: "v = choice_value (buildInquirerChoices f cs ! i)"
      by (auto simp: listInput_def split: option.splits if_splits)
    from i have "choice_value (buildInquirerChoices f cs ! i)
        = map choice_value (buildInquirerChoices f cs) ! i"
      by simp
    also have "\<dots> = card_id (cards cs ! i)"
      using i len by (simp add: val)
    finally show ?thesis
      using i len v by simp
  qed
  from len val short label sel show ?thesis by blast
qed

theorem buildInquirerChoices_one_choice_per_card_witness:
  "listInput (buildInquirerChoices plain two_cards) (Some 1) = Some ''card_2''
   \<and> ''card_2'' \<in> card_id ` set (cards two_cards)
   \<and> map choice_value (buildInquirerChoices plain two_cards) = [''card_1'', ''card_2'']
   \<and> map choice_name (buildInquirerChoices plain two_cards) =
       [''ID: card_1 (default)'' @ nl @ ''  Ada Lovelace'' @ nl @ ''  Visa #### #### #### 4242'',
        ''ID: card_2'' @ nl @ ''  Alan Turing'' @ nl @ ''  Amex #### #### #### 0005'']"
proof -
  have chosen: "listInput (buildInquirerChoices plain two_cards) (Some 1) = Some ''card_2''"
    by code_simp
  have present: "''card_2'' \<in> card_id ` set (cards two_cards)"
    using buildInquirerChoices_one_choice_per_card [of plain two_cards] chosen by blast
  have vals: "map choice_value (buildInquirerChoices plain two_cards) = [''card_1'', ''card_2'']"
    by code_simp
  have labels: "map choice_name (buildInquirerChoices plain two_cards) =
       [''ID: card_1 (default)'' @ nl @ ''  Ada Lovelace'' @ nl @ ''  Visa #### #### #### 4242'',
        ''ID: card_2'' @ nl @ ''  Alan Turing'' @ nl @ ''  Amex #### #### #### 0005'']"
    by code_simp
  from chosen present vals labels show ?thesis by blast
qed

section \<open>Declining the confirmation, and the release of the client\<close>

text \<open>
  Claim C1. A negative answer at the confirmation prompt should abort the command with no
  mutating call, a message that is no error, and no crash. For \<^verbatim>\<open>rm\<close> this is what
  happens (third part below). For \<^verbatim>\<open>set-default\<close> the statement that prints the message
  names \<^verbatim>\<open>consoel\<close> instead of \<^verbatim>\<open>console\<close>: the run ends with a ReferenceError, which
  \<^verbatim>\<open>main\<close> reports as an unknown error before \<^verbatim>\<open>exit(1)\<close>.
\<close>

theorem set_default_decline_throws:
  "run plain ((world two_cards)\<lparr>promptBool_answer := False\<rparr>) alice [''set-default'', ''card_1'']
     = ([ApiLs, PromptBool ''Are you sure that you to set this card as the default?'' (Some nl)],
        Threw (ReferenceError ''consoel''))
   \<and> main_try plain ((world two_cards)\<lparr>promptBool_answer := False\<rparr>) alice
       [''set-default'', ''card_1'']
     = [ApiLs, PromptBool ''Are you sure that you to set this card as the default?'' (Some nl),
        Err ''> Error! Unknown error: ReferenceError: consoel is not defined'', Exit 1]
   \<and> run plain ((world two_cards)\<lparr>promptBool_answer := False\<rparr>) alice [''rm'', ''card_1'']
     = ([ApiLs, PromptBool ''Are you sure that you want to remove this card?'' None,
         Log ''Aborted'', ApiClose], Done)"
  by code_simp

text \<open>
  Claim C2. \<^verbatim>\<open>creditCards.close()\<close> should be called exactly once on every path of the
  handler. It is the last statement of \<^verbatim>\<open>run\<close>, after the \<^verbatim>\<open>switch\<close>, and a
  \<^verbatim>\<open>return\<close> inside the \<^verbatim>\<open>switch\<close> leaves the function before it: when the fetch of
  \<^verbatim>\<open>ls\<close> fails, the error is printed and the client is never closed, while the same
  command with a successful fetch closes it once.
\<close>

theorem failed_fetch_skips_close:
  "run plain ((world two_cards)\<lparr>ls_first := Inl (ApiError ''Network error'' True)\<rparr>) alice [''ls'']
     = ([ApiLs, Err ''> Error! Network error''], Done)
   \<and> length (filter is_close
         (fst (run plain ((world two_cards)\<lparr>ls_first := Inl (ApiError ''Network error'' True)\<rparr>)
            alice [''ls'']))) = 0
   \<and> length (filter is_close (fst (run plain (world two_cards) alice [''ls'']))) = 1"
  by code_simp

section \<open>The list of cards\<close>

lemma join_nonempty: "xs \<noteq> [] \<Longrightarrow> hd xs \<noteq> [] \<Longrightarrow> join sep xs \<noteq> []"
  by (induction sep xs rule: join.induct) auto

lemma ls_card_nonempty: "ls_card f cs c \<noteq> []"
  by (simp add: ls_card_def Let_def nl_def)

text \<open>
  Claim C8, as stated: the address of a card is one line when the card has no
  \<^verbatim>\<open>address_line2\<close>. It is not: the address of such a card has two lines, the street and
  the city.
\<close>

theorem address_without_line2_has_two_lines:
  "address_line2 visa = None
   \<and> ls_address visa = ''12 Main St.'' @ nl @ ''London, N1. GB''
   \<and> line_count (ls_address visa) = 2
   \<and> line_count (ls_address visa) \<noteq> (if truthy (address_line2 visa) then 2 else 1)"
  by code_simp

text \<open>
  Claim C8, amended. The text of a card in the list is its id, followed by the marker
  \<^verbatim>\<open>(default)\<close> exactly when the id is the \<^verbatim>\<open>defaultCardId\<close> of the collection, then
  the cardholder's name, the brand with a masked number that shows the last four digits
  only, and the address. The address always has two lines: \<^verbatim>\<open>address_line1\<close>, followed
  by a comma and \<^verbatim>\<open>address_line2\<close> when that is present and not empty, and a full stop;
  then the city, the state when it is present and not empty, the zip code and the country.
  These texts, separated by empty lines, are what the list handler prints for a non-empty
  collection.
\<close>

theorem ls_card_rendering:
  "ls_card f cs c =
     gray f ''-'' @ '' '' @ cyan f (''ID: '' @ card_id c)
     @ (if Some (card_id c) = defaultCardId cs then '' '' @ bold f ''(default)'' else [])
     @ nl @ indent f (name c) 2
     @ nl @ indent f (brand c @ '' '' @ gray f ''#### '' @ gray f ''#### '' @ gray f ''#### ''
              @ last4 c) 2
     @ nl @ indent f (ls_address c) 2
   \<and> ls_address c =
       address_line1 c
       @ (case address_line2 c of
            None \<Rightarrow> ''.''
          | Some line2 \<Rightarrow> if line2 = [] then ''.'' else '', '' @ line2 @ ''.'')
       @ nl @ address_city c @ '', ''
       @ (case address_state c of
            None \<Rightarrow> []
          | Some state \<Rightarrow> if state = [] then [] else state @ '', '')
       @ address_zip c @ ''. '' @ address_country c
   \<and> (no_newline (address_line1 c) \<and> no_newline (str (address_line2 c))
        \<and> no_newline (address_city c) \<and> no_newline (str (address_state c))
        \<and> no_newline (address_zip c) \<and> no_newline (address_country c)
      \<longrightarrow> line_count (ls_address c) = 2)
   \<and> (ls_first e = Inr cs \<and> cards cs \<noteq> [] \<longrightarrow>
        run f e s [''ls''] =
          ([ApiLs,
            Log (''> '' @ plural f ''card'' (length (cards cs)) True @ '' found under ''
              @ bold f (str (owner s)) @ '' '' @ gray f (''['' @ elapsed_first e @ '']'')),
            Log (nl @ join (nl @ nl) (map (ls_card f cs) (cards cs)) @ nl),
            ApiClose], Done))"
proof -
  have card: "ls_card f cs c =
     gray f ''-'' @ '' '' @ cyan f (''ID: '' @ card_id c)
     @ (if Some (card_id c) = defaultCardId cs then '' '' @ bold f ''(default)'' else [])
     @ nl @ indent f (name c) 2
     @ nl @ indent f (brand c @ '' '' @ gray f ''#### '' @ gray f ''#### '' @ gray f ''#### ''
              @ last4 c) 2
     @ nl @ indent f (ls_address c) 2"
    by (simp add: ls_card_def Let_def default_marker_def masked_number_def numeral_3_eq_3)
  have addr: "ls_address c =
       address_line1 c
       @ (case address_line2 c of
            None \<Rightarrow> ''.''
          | Some line2 \<Rightarrow> if line2 = [] then ''.'' else '', '' @ line2 @ ''.'')
       @ nl @ address_city c @ '', ''
       @ (case address_state c of
            None \<Rightarrow> []
          | Some state \<Rightarrow> if state = [] then [] else state @ '', '')
       @ address_zip c @ ''. '' @ address_country c"
    by (simp add: ls_address_def truthy_def str_def split: option.splits)
  have lines: "line_count (ls_address c) = 2"
    if "no_newline (address_line1 c) \<and> no_newline (str (address_line2 c))
        \<and> no_newline (address_city c) \<and> no_newline (str (address_state c))
        \<and> no_newline (address_zip c) \<and> no_newline (address_country c)"
    using that
    by (simp add: ls_address_def line_count_def no_newline_def nl_def truthy_def str_def
        split: option.splits)
  have shown: "join (nl @ nl) (map (ls_card f cs) (cards cs)) \<noteq> []" if "cards cs \<noteq> []"
    using that by (intro join_nonempty) (simp_all add: hd_map ls_card_nonempty)
  have out: "run f e s [''ls''] =
          ([ApiLs,
            Log (''> '' @ plural f ''card'' (length (cards cs)) True @ '' found under ''
              @ bold f (str (owner s)) @ '' '' @ gray f (''['' @ elapsed_first e @ '']'')),
            Log (nl @ join (nl @ nl) (map (ls_card f cs) (cards cs)) @ nl),
            ApiClose], Done)"
    if "ls_first e = Inr cs \<and> cards cs \<noteq> []"
    using that shown by (simp add: run_def run_list_def Let_def)
  from card addr lines out show ?thesis by blast
qed

theorem ls_card_rendering_witness:
  "no_newline (address_line1 amex) \<and> no_newline (str (address_line2 amex))
   \<and> no_newline (address_city amex) \<and> no_newline (str (address_state amex))
   \<and> no_newline (address_zip amex) \<and> no_newline (address_country amex)
   \<and> line_count (ls_address amex) = 2
   \<and> ls_address amex = ''1 Market St, Suite 5.'' @ nl @ ''San Francisco, CA, 94105. US''
   \<and> ls_first (world two_cards) = Inr two_cards \<and> cards two_cards \<noteq> []
   \<and> run plain (world two_cards) alice [''ls''] =
       ([ApiLs,
         Log (''> '' @ plural plain ''card'' (length (cards two_cards)) True @ '' found under ''
           @ bold plain (str (owner alice)) @ '' '' @ gray plain (''['' @ elapsed_first (world two_cards) @ '']'')),
         Log (nl @ join (nl @ nl) (map (ls_card plain two_cards) (cards two_cards)) @ nl),
         ApiClose], Done)
   \<and> fst (run plain (world two_cards) alice [''ls'']) =
       [ApiLs,
        Log ''> 2 cards found under alice [5ms]'',
        Log (nl @ ''- ID: card_1 (default)'' @ nl @ ''  Ada Lovelace'' @ nl
          @ ''  Visa #### #### #### 4242'' @ nl @ ''  12 Main St.'' @ nl @ ''  London, N1. GB''
          @ nl @ nl @ ''- ID: card_2'' @ nl @ ''  Alan Turing'' @ nl
          @ ''  Amex #### #### #### 0005'' @ nl @ ''  1 Market St, Suite 5.'' @ nl
          @ ''  San Francisco, CA, 94105. US'' @ nl),
        ApiClose]"
proof -
  have fields: "no_newline (address_line1 amex) \<and> no_newline (str (address_line2 amex))
      \<and> no_newline (address_city amex) \<and> no_newline (str (address_state amex))
      \<and> no_newline (address_zip amex) \<and> no_newline (address_country amex)"
    by code_simp
  have fetched: "ls_first (world two_cards) = Inr two_cards \<and> cards two_cards \<noteq> []"
    by (simp add: world_def two_cards_def)
  note rendering = ls_card_rendering [of plain two_cards amex "world two_cards" alice]
  from rendering fields have two: "line_count (ls_address amex) = 2"
    by blast
  from rendering fetched have printed: "run plain (world two_cards) alice [''ls''] =
       ([ApiLs,
         Log (''> '' @ plural plain ''card'' (length (cards two_cards)) True @ '' found under ''
           @ bold plain (str (owner alice)) @ '' '' @ gray plain (''['' @ elapsed_first (world two_cards) @ '']'')),
         Log (nl @ join (nl @ nl) (map (ls_card plain two_cards) (cards two_cards)) @ nl),
         ApiClose], Done)"
    by blast
  have address: "ls_address amex = ''1 Market St, Suite 5.'' @ nl @ ''San Francisco, CA, 94105. US''"
    by code_simp
  have concrete: "fst (run plain (world two_cards) alice [''ls'']) =
       [ApiLs,
        Log ''> 2 cards found under alice [5ms]'',
        Log (nl @ ''- ID: card_1 (default)'' @ nl @ ''  Ada Lovelace'' @ nl
          @ ''  Visa #### #### #### 4242'' @ nl @ ''  12 Main St.'' @ nl @ ''  London, N1. GB''
          @ nl @ nl @ ''- ID: card_2'' @ nl @ ''  Alan Turing'' @ nl
          @ ''  Amex #### #### #### 0005'' @ nl @ ''  1 Market St, Suite 5.'' @ nl
          @ ''  San Francisco, CA, 94105. US'' @ nl),
        ApiClose]"
    by code_simp
  from fields two address fetched printed concrete show ?thesis
    by blast
qed

section \<open>A card id given as an argument\<close>

text \<open>
  Claim C4, as stated: with exactly one positional argument the confirmation prompt is
  shown. It is not when the argument is the empty string (\<^verbatim>\<open>now billing rm ''\<close>): the
  handler does not open the selection prompt, since the argument is not \<^verbatim>\<open>undefined\<close>,
  and the test \<^verbatim>\<open>if (cardId)\<close> then takes the empty string for no selection.
\<close>

theorem empty_id_skips_confirmation:
  "ls_first (world two_cards) = Inr two_cards
   \<and> run plain (world two_cards) alice [''rm'', ''''] = ([ApiLs, Log ''No changes made'', ApiClose], Done)
   \<and> run plain (world two_cards) alice [''set-default'', '''']
       = ([ApiLs, Log ''No changes made'', ApiClose], Done)
   \<and> filter is_prompt (fst (run plain (world two_cards) alice [''rm'', ''''])) = []
   \<and> filter is_mutation (fst (run plain (world two_cards) alice [''rm'', ''''])) = []"
  by code_simp

text \<open>
  Claim C4, amended. When \<^verbatim>\<open>set-default\<close>, \<^verbatim>\<open>rm\<close> or \<^verbatim>\<open>remove\<close> is invoked with
  exactly one positional argument that is not the empty string, and the fetch returns a
  non-empty collection, the argument is the target whether or not the collection has a card
  with that id: the confirmation prompt comes right after the fetch, with no selection
  prompt; on a positive answer the mutating call is made with that id; and when that call
  succeeds and no card of the collection has the id, the lookup for the display finds
  nothing and reading the brand of the missing card throws a TypeError.
\<close>

theorem supplied_id_not_validated:
  assumes "sub \<in> {''set-default'', ''rm'', ''remove''}"
    and "a \<noteq> []"
    and "ls_first e = Inr cs"
    and "cards cs \<noteq> []"
  shows "take 2 (fst (run f e s [sub, a])) = [ApiLs, confirmation_of sub]
    \<and> (promptBool_answer e
       \<longrightarrow> take 3 (fst (run f e s [sub, a])) = [ApiLs, confirmation_of sub, mutation_of sub a])
    \<and> (promptBool_answer e
        \<and> (if sub = ''set-default'' then setDefault_result e else rm_result e) = None
        \<and> find (\<lambda>c. card_id c = a) (cards cs) = None
       \<longrightarrow> run f e s [sub, a]
           = ([ApiLs, confirmation_of sub, mutation_of sub a], Threw (TypeError ''brand'')))"
proof -
  from assms(1) consider "sub = ''set-default''" | "sub = ''rm''" | "sub = ''remove''"
    by auto
  then show ?thesis
  proof cases
    case 1
    with assms(2-4) show ?thesis
      by (simp add: run_def run_set_default_def Let_def truthy_def str_def confirmation_of_def
          mutation_of_def eq_commute [of "Some a"] split: sum.split option.split)
  next
    case 2
    with assms(2-4) show ?thesis
      by (simp add: run_def run_rm_def Let_def truthy_def str_def confirmation_of_def
          mutation_of_def eq_commute [of "Some a"] split: sum.split option.split)
  next
    case 3
    with assms(2-4) show ?thesis
      by (simp add: run_def run_rm_def Let_def truthy_def str_def confirmation_of_def
          mutation_of_def eq_commute [of "Some a"] split: sum.split option.split)
  qed
qed

theorem supplied_id_not_validated_witness:
  "''set-default'' \<in> {''set-default'', ''rm'', ''remove''} \<and> ''card_9'' \<noteq> []
   \<and> ls_first (world two_cards) = Inr two_cards \<and> cards two_cards \<noteq> []
   \<and> promptBool_answer (world two_cards)
   \<and> (if ''set-default'' = ''set-default'' then setDefault_result (world two_cards)
        else rm_result (world two_cards)) = None
   \<and> find (\<lambda>c. card_id c = ''card_9'') (cards two_cards) = None
   \<and> run plain (world two_cards) alice [''set-default'', ''card_9'']
      = ([ApiLs, confirmation_of ''set-default'', mutation_of ''set-default'' ''card_9''],
         Threw (TypeError ''brand''))
   \<and> confirmation_of ''set-default''
      = PromptBool ''Are you sure that you to set this card as the default?'' (Some nl)
   \<and> mutation_of ''set-default'' ''card_9'' = ApiSetDefault ''card_9''"
proof -
  have given: "''set-default'' \<in> {''set-default'', ''rm'', ''remove''}" "''card_9'' \<noteq> []"
    "ls_first (world two_cards) = Inr two_cards" "cards two_cards \<noteq> []"
    by (simp_all add: world_def two_cards_def)
  have yes: "promptBool_answer (world two_cards)
      \<and> (if ''set-default'' = ''set-default'' then setDefault_result (world two_cards)
           else rm_result (world two_cards)) = None
      \<and> find (\<lambda>c. card_id c = ''card_9'') (cards two_cards) = None"
    by (simp add: world_def two_cards_def visa_def amex_def)
  from supplied_id_not_validated [OF given, of plain alice] yes
  have thrown: "run plain (world two_cards) alice [''set-default'', ''card_9'']
      = ([ApiLs, confirmation_of ''set-default'', mutation_of ''set-default'' ''card_9''],
         Threw (TypeError ''brand''))"
    by blast
  have events: "confirmation_of ''set-default''
      = PromptBool ''Are you sure that you to set this card as the default?'' (Some nl)
      \<and> mutation_of ''set-default'' ''card_9'' = ApiSetDefault ''card_9''"
    by (simp add: confirmation_of_def mutation_of_def)
  from given yes thrown events show ?thesis
    by blast
qed

section \<open>The default card after a removal\<close>

text \<open>What the removal handler does once the target is resolved, confirmed and deleted.\<close>

lemma run_rm_deleted:
  assumes "ls_first e = Inr cs"
    and "args = [i] \<or> args = [] \<and> listInput (buildInquirerChoices f cs) (listInput_answer e) = Some i"
    and "i \<noteq> []"
    and "promptBool_answer e"
    and "rm_result e = None"
    and "find (\<lambda>c. card_id c = i) (cards cs) = Some d"
  shows "\<exists>before. (\<forall>rest. after_rm (before @ rest) = rest) \<and> run_rm f e s args =
    (let deleted = brand d @ '' ending in '' @ last4 d @ '' was deleted'';
         timing = '' '' @ gray f (''['' @ elapsed_second e @ '']'')
     in if defaultCardId cs = Some i then
          if filter (\<lambda>c. card_id c \<noteq> i) (cards cs) = []
          then (before @ [Log (success f (deleted @ nl @ yellow f ''Warning!''
                  @ '' You have no default card'' @ timing))], Break)
          else case ls_second e of
            Inl err \<Rightarrow> (before @ [ApiLs], Throw err)
          | Inr cs2 \<Rightarrow>
              (case find (\<lambda>c. Some (card_id c) = defaultCardId cs2) (cards cs2) of
                 None \<Rightarrow> (before @ [ApiLs], Throw (TypeError ''brand''))
               | Some nd \<Rightarrow>
                   (before @ [ApiLs, Log (success f (deleted @ nl @ brand nd @ '' ending in ''
                      @ last4 nd @ '' in now default for '' @ bold f (str (owner s)) @ timing))],
                    Break))
        else (before @ [Log (success f (deleted @ timing))], Break))"
proof -
  from assms(6) have nonempty: "cards cs \<noteq> []"
    by (cases "cards cs") simp_all
  from assms(2) show ?thesis
  proof
    assume "args = [i]"
    with nonempty assms(1,3,4,5,6) show ?thesis
      by (intro exI [of _ "[ApiLs, confirmation_of ''rm'', ApiRm i]"])
        (simp add: run_rm_def Let_def truthy_def str_def confirmation_of_def
          eq_commute [of "Some i"] split: sum.split option.split)
  next
    assume "args = [] \<and> listInput (buildInquirerChoices f cs) (listInput_answer e) = Some i"
    with nonempty assms(1,3,4,5,6) show ?thesis
      by (intro exI [of _ "[ApiLs, selection_of f e s cs ''rm'', confirmation_of ''rm'', ApiRm i]"])
        (simp add: run_rm_def Let_def truthy_def str_def confirmation_of_def selection_of_def
          eq_commute [of "Some i"] split: sum.split option.split)
  qed
qed

lemma run_rm_cases:
  assumes "sub \<in> {''rm'', ''remove''}"
  shows "run f e s (sub # args) =
    (case snd (run_rm f e s args) of
       Break \<Rightarrow> (fst (run_rm f e s args) @ [ApiClose], Done)
     | Return \<Rightarrow> (fst (run_rm f e s args), Done)
     | Throw err \<Rightarrow> (fst (run_rm f e s args), Threw err))"
  using assms by (auto simp: run_def Let_def)

text \<open>
  Claim C3, as stated: after a confirmed removal that leaves no card, a warning that there
  is no default card is printed. It is not when the removed card was not the default: the
  test for remaining cards is inside the test \<^verbatim>\<open>cardId === cards.defaultCardId\<close>, and
  the only card of a collection without a default is deleted with the plain message.
\<close>

theorem last_card_not_default_no_warning:
  "ls_first (world one_card_no_default) = Inr one_card_no_default
   \<and> filter (\<lambda>c. card_id c \<noteq> ''card_1'') (cards one_card_no_default) = []
   \<and> run plain (world one_card_no_default) alice [''rm'', ''card_1'']
       = ([ApiLs, PromptBool ''Are you sure that you want to remove this card?'' None,
           ApiRm ''card_1'', Log ''> Success! Visa ending in 4242 was deleted [7ms]'', ApiClose],
          Done)"
  by code_simp

text \<open>
  Claim C3, amended. Take a confirmed removal: the target \<open>i\<close>, given as the argument or
  selected at the prompt, is not empty, the user says yes, \<^verbatim>\<open>rm\<close> succeeds and \<open>d\<close>
  is the card of the fetched collection with the id \<open>i\<close>. After the call of \<^verbatim>\<open>rm\<close>
  there is exactly one fetch when \<open>i\<close> is the \<^verbatim>\<open>defaultCardId\<close> and another card
  remains, and none otherwise. In the first case, when that fetch returns a collection
  whose default card is \<open>nd\<close>, the message names the brand and the last four digits of
  \<open>nd\<close> as the new default. When \<open>i\<close> is the default and no card remains, the message
  carries the warning that there is no default card. When \<open>i\<close> is not the default, the
  message only says that the card was deleted.
\<close>

theorem removal_refetches_only_for_default:
  assumes "sub \<in> {''rm'', ''remove''}"
    and "ls_first e = Inr cs"
    and "args = [i] \<or> args = [] \<and> listInput (buildInquirerChoices f cs) (listInput_answer e) = Some i"
    and "i \<noteq> []"
    and "promptBool_answer e"
    and "rm_result e = None"
    and "find (\<lambda>c. card_id c = i) (cards cs) = Some d"
  shows "length (filter is_fetch (after_rm (fst (run f e s (sub # args))))) =
      (if defaultCardId cs = Some i \<and> filter (\<lambda>c. card_id c \<noteq> i) (cards cs) \<noteq> [] then 1 else 0)
    \<and> (defaultCardId cs = Some i \<and> filter (\<lambda>c. card_id c \<noteq> i) (cards cs) \<noteq> []
        \<and> ls_second e = Inr cs2
        \<and> find (\<lambda>c. Some (card_id c) = defaultCardId cs2) (cards cs2) = Some nd
       \<longrightarrow> after_rm (fst (run f e s (sub # args))) =
            [ApiLs,
             Log (success f (brand d @ '' ending in '' @ last4 d @ '' was deleted'' @ nl
               @ brand nd @ '' ending in '' @ last4 nd @ '' in now default for ''
               @ bold f (str (owner s)) @ '' '' @ gray f (''['' @ elapsed_second e @ '']''))),
             ApiClose])
    \<and> (defaultCardId cs = Some i \<and> filter (\<lambda>c. card_id c \<noteq> i) (cards cs) = []
       \<longrightarrow> after_rm (fst (run f e s (sub # args))) =
            [Log (success f (brand d @ '' ending in '' @ last4 d @ '' was deleted'' @ nl
               @ yellow f ''Warning!'' @ '' You have no default card''
               @ '' '' @ gray f (''['' @ elapsed_second e @ '']''))),
             ApiClose])
    \<and> (defaultCardId cs \<noteq> Some i
       \<longrightarrow> after_rm (fst (run f e s (sub # args))) =
            [Log (success f (brand d @ '' ending in '' @ last4 d @ '' was deleted''
               @ '' '' @ gray f (''['' @ elapsed_second e @ '']''))),
             ApiClose])"
proof -
  from run_rm_deleted [OF assms(2-7), of s] obtain before
    where skip: "\<And>rest. after_rm (before @ rest) = rest"
      and handler: "run_rm f e s args =
        (let deleted = brand d @ '' ending in '' @ last4 d @ '' was deleted'';
             timing = '' '' @ gray f (''['' @ elapsed_second e @ '']'')
         in if defaultCardId cs = Some i then
              if filter (\<lambda>c. card_id c \<noteq> i) (cards cs) = []
              then (before @ [Log (success f (deleted @ nl @ yellow f ''Warning!''
                      @ '' You have no default card'' @ timing))], Break)
              else case ls_second e of
                Inl err \<Rightarrow> (before @ [ApiLs], Throw err)
              | Inr cs2 \<Rightarrow>
                  (case find (\<lambda>c. Some (card_id c) = defaultCardId cs2) (cards cs2) of
                     None \<Rightarrow> (before @ [ApiLs], Throw (TypeError ''brand''))
                   | Some nd \<Rightarrow>
                       (before @ [ApiLs, Log (success f (deleted @ nl @ brand nd @ '' ending in ''
                          @ last4 nd @ '' in now default for '' @ bold f (str (owner s)) @ timing))],
                        Break))
            else (before @ [Log (success f (deleted @ timing))], Break))"
    by blast
  note whole = run_rm_cases [OF assms(1), of f e s args]
  have skip2: "after_rm ((before @ xs) @ ys) = xs @ ys" for xs ys
    using skip [of "xs @ ys"] by simp
  have other: "after_rm (fst (run f e s (sub # args))) =
      [Log (success f (brand d @ '' ending in '' @ last4 d @ '' was deleted''
         @ '' '' @ gray f (''['' @ elapsed_second e @ '']''))), ApiClose]"
    if "defaultCardId cs \<noteq> Some i"
    using that by (simp add: whole handler Let_def skip skip2)
  have last_card: "after_rm (fst (run f e s (sub # args))) =
      [Log (success f (brand d @ '' ending in '' @ last4 d @ '' was deleted'' @ nl
         @ yellow f ''Warning!'' @ '' You have no default card''
         @ '' '' @ gray f (''['' @ elapsed_second e @ '']''))), ApiClose]"
    if "defaultCardId cs = Some i \<and> filter (\<lambda>c. card_id c \<noteq> i) (cards cs) = []"
    using that by (simp add: whole handler Let_def skip skip2)
  have refetch: "\<exists>rest. after_rm (fst (run f e s (sub # args))) = ApiLs # rest
      \<and> filter is_fetch rest = []"
    if "defaultCardId cs = Some i \<and> filter (\<lambda>c. card_id c \<noteq> i) (cards cs) \<noteq> []"
    using that
    by (simp add: whole handler Let_def skip skip2
        split: sum.split option.split)
  have promoted: "after_rm (fst (run f e s (sub # args))) =
      [ApiLs,
       Log (success f (brand d @ '' ending in '' @ last4 d @ '' was deleted'' @ nl
         @ brand nd @ '' ending in '' @ last4 nd @ '' in now default for ''
         @ bold f (str (owner s)) @ '' '' @ gray f (''['' @ elapsed_second e @ '']''))),
       ApiClose]"
    if "defaultCardId cs = Some i \<and> filter (\<lambda>c. card_id c \<noteq> i) (cards cs) \<noteq> []
        \<and> ls_second e = Inr cs2
        \<and> find (\<lambda>c. Some (card_id c) = defaultCardId cs2) (cards cs2) = Some nd"
    using that by (simp add: whole handler Let_def skip skip2)
  have count: "length (filter is_fetch (after_rm (fst (run f e s (sub # args))))) =
      (if defaultCardId cs = Some i \<and> filter (\<lambda>c. card_id c \<noteq> i) (cards cs) \<noteq> [] then 1 else 0)"
  proof (cases "defaultCardId cs = Some i")
    case False
    then show ?thesis by (simp add: other)
  next
    case True
    show ?thesis
    proof (cases "filter (\<lambda>c. card_id c \<noteq> i) (cards cs) = []")
      case True
      with \<open>defaultCardId cs = Some i\<close> show ?thesis by (simp add: last_card)
    next
      case False
      with \<open>defaultCardId cs = Some i\<close> refetch obtain rest
        where "after_rm (fst (run f e s (sub # args))) = ApiLs # rest"
          and "filter is_fetch rest = []"
        by blast
      with False \<open>defaultCardId cs = Some i\<close> show ?thesis by simp
    qed
  qed
  from count promoted last_card other show ?thesis by blast
qed

theorem removal_refetches_only_for_default_witness:
  "''rm'' \<in> {''rm'', ''remove''}
   \<and> ls_first (world two_cards) = Inr two_cards
   \<and> ''card_1'' \<noteq> [] \<and> promptBool_answer (world two_cards) \<and> rm_result (world two_cards) = None
   \<and> find (\<lambda>c. card_id c = ''card_1'') (cards two_cards) = Some visa
   \<and> defaultCardId two_cards = Some ''card_1''
   \<and> filter (\<lambda>c. card_id c \<noteq> ''card_1'') (cards two_cards) \<noteq> []
   \<and> ls_second (world two_cards) = Inr \<lparr>cards = [amex], defaultCardId = Some ''card_2''\<rparr>
   \<and> length (filter is_fetch (after_rm (fst (run plain (world two_cards) alice [''rm'', ''card_1''])))) = 1
   \<and> after_rm (fst (run plain (world two_cards) alice [''rm'', ''card_1''])) =
        [ApiLs,
         Log (''> Success! Visa ending in 4242 was deleted'' @ nl
           @ ''Amex ending in 0005 in now default for alice [7ms]''),
         ApiClose]
   \<and> find (\<lambda>c. card_id c = ''card_1'') (cards one_card) = Some visa
   \<and> defaultCardId one_card = Some ''card_1''
   \<and> filter (\<lambda>c. card_id c \<noteq> ''card_1'') (cards one_card) = []
   \<and> after_rm (fst (run plain (world one_card) alice [''rm'', ''card_1''])) =
        [Log (''> Success! Visa ending in 4242 was deleted'' @ nl
           @ ''Warning! You have no default card [7ms]''),
         ApiClose]
   \<and> find (\<lambda>c. card_id c = ''card_2'') (cards two_cards) = Some amex
   \<and> defaultCardId two_cards \<noteq> Some ''card_2''
   \<and> after_rm (fst (run plain (world two_cards) alice [''rm'', ''card_2''])) =
        [Log ''> Success! Amex ending in 0005 was deleted [7ms]'', ApiClose]"
proof -
  have sub: "''rm'' \<in> {''rm'', ''remove''}"
    by simp
  have fetched: "ls_first (world two_cards) = Inr two_cards"
    "ls_first (world one_card) = Inr one_card"
    by (simp_all add: world_def)
  have yes: "promptBool_answer (world cs)" "rm_result (world cs) = None" for cs
    by (simp_all add: world_def)
  have ids: "''card_1'' \<noteq> []" "''card_2'' \<noteq> []"
    by simp_all
  have found: "find (\<lambda>c. card_id c = ''card_1'') (cards two_cards) = Some visa"
    "find (\<lambda>c. card_id c = ''card_1'') (cards one_card) = Some visa"
    "find (\<lambda>c. card_id c = ''card_2'') (cards two_cards) = Some amex"
    by (simp_all add: two_cards_def one_card_def visa_def amex_def)
  have default: "defaultCardId two_cards = Some ''card_1''"
    "defaultCardId one_card = Some ''card_1''" "defaultCardId two_cards \<noteq> Some ''card_2''"
    by (simp_all add: two_cards_def one_card_def)
  have remaining: "filter (\<lambda>c. card_id c \<noteq> ''card_1'') (cards two_cards) \<noteq> []"
    "filter (\<lambda>c. card_id c \<noteq> ''card_1'') (cards one_card) = []"
    by (simp_all add: two_cards_def one_card_def visa_def amex_def)
  have second: "ls_second (world two_cards) = Inr \<lparr>cards = [amex], defaultCardId = Some ''card_2''\<rparr>"
    "find (\<lambda>c. Some (card_id c) = defaultCardId \<lparr>cards = [amex], defaultCardId = Some ''card_2''\<rparr>)
       (cards \<lparr>cards = [amex], defaultCardId = Some ''card_2''\<rparr>) = Some amex"
    by (simp_all add: world_def amex_def)
  note promoted = removal_refetches_only_for_default [where sub = "''rm''" and e = "world two_cards" and cs = two_cards
      and args = "[''card_1'']" and i = "''card_1''" and f = plain and d = visa and s = alice
      and ?cs2.0 = "\<lparr>cards = [amex], defaultCardId = Some ''card_2''\<rparr>" and nd = amex,
      OF sub fetched(1) _ ids(1) yes found(1)]
  note warned = removal_refetches_only_for_default [where sub = "''rm''" and e = "world one_card" and cs = one_card
      and args = "[''card_1'']" and i = "''card_1''" and f = plain and d = visa and s = alice
      and ?cs2.0 = "\<lparr>cards = [amex], defaultCardId = Some ''card_2''\<rparr>" and nd = amex,
      OF sub fetched(2) _ ids(1) yes found(2)]
  note other = removal_refetches_only_for_default [where sub = "''rm''" and e = "world two_cards" and cs = two_cards
      and args = "[''card_2'']" and i = "''card_2''" and f = plain and d = amex and s = alice
      and ?cs2.0 = "\<lparr>cards = [amex], defaultCardId = Some ''card_2''\<rparr>" and nd = amex,
      OF sub fetched(1) _ ids(2) yes found(3)]
  have once: "length (filter is_fetch
      (after_rm (fst (run plain (world two_cards) alice [''rm'', ''card_1''])))) = 1"
    using promoted default(1) remaining(1) by simp
  have a: "after_rm (fst (run plain (world two_cards) alice [''rm'', ''card_1''])) =
        [ApiLs,
         Log (''> Success! Visa ending in 4242 was deleted'' @ nl
           @ ''Amex ending in 0005 in now default for alice [7ms]''),
         ApiClose]"
    using promoted default(1) remaining(1) second
    by (simp add: plain_def world_def visa_def amex_def alice_def owner_def js_or_def truthy_def
        str_def)
  have b: "after_rm (fst (run plain (world one_card) alice [''rm'', ''card_1''])) =
        [Log (''> Success! Visa ending in 4242 was deleted'' @ nl
           @ ''Warning! You have no default card [7ms]''),
         ApiClose]"
    using warned default(2) remaining(2)
    by (simp add: plain_def world_def visa_def)
  have c: "after_rm (fst (run plain (world two_cards) alice [''rm'', ''card_2''])) =
        [Log ''> Success! Amex ending in 0005 was deleted [7ms]'', ApiClose]"
    using other default(3)
    by (simp add: plain_def world_def amex_def)
  from sub fetched(1) ids(1) yes found default remaining second(1) once a b c show ?thesis
    by blast
qed

end
